theory Spec2Isabelle
  imports Main
begin

section \<open>Exceptions\<close>

text \<open>
  Every \<^verbatim>\<open>raise\<close> of the services is a value. \<open>HTTPException\<close> carries the status code
  and the detail text; \<open>MultipleResultsFound\<close> is what \<^verbatim>\<open>scalar_one_or_none()\<close> raises
  when a query yields more than one row; \<open>ValidationError\<close> is what a request schema raises;
  \<open>JWTError\<close> and \<open>ValueError\<close> are the two exception classes \<^verbatim>\<open>verify_token\<close>
  tells apart.
\<close>

datatype exn =
    HTTPException (status_code: nat) (detail: string)
  | MultipleResultsFound
  | ValidationError string
  | JWTError string
  | ValueError string

abbreviation HTTP_401_UNAUTHORIZED :: nat where "HTTP_401_UNAUTHORIZED \<equiv> 401"
abbreviation HTTP_403_FORBIDDEN :: nat where "HTTP_403_FORBIDDEN \<equiv> 403"
abbreviation HTTP_404_NOT_FOUND :: nat where "HTTP_404_NOT_FOUND \<equiv> 404"
abbreviation HTTP_500_INTERNAL_SERVER_ERROR :: nat where "HTTP_500_INTERNAL_SERVER_ERROR \<equiv> 500"

section \<open>Python strings and integers\<close>

text \<open>
  A Python \<^verbatim>\<open>str\<close> is a list of characters, one \<open>char\<close> for each code point; the model
  covers the code points below 256. \<open>isspace\<close> is \<^verbatim>\<open>str.isspace\<close> on one such
  character, and \<open>strip\<close> is \<^verbatim>\<open>str.strip()\<close>, which removes the whitespace at both
  ends.
\<close>

definition isspace :: "char \<Rightarrow> bool" where
  "isspace c = (c \<in> {CHR 0x09, CHR 0x0A, CHR 0x0B, CHR 0x0C, CHR 0x0D,
                      CHR 0x1C, CHR 0x1D, CHR 0x1E, CHR 0x1F, CHR 0x20, CHR 0x85, CHR 0xA0})"

definition strip :: "string \<Rightarrow> string" where
  "strip s = rev (dropWhile isspace (rev (dropWhile isspace s)))"

text \<open>
  \<^verbatim>\<open>str(i)\<close> for an integer: the decimal digits, most significant first, after a minus
  sign when \<open>i\<close> is negative. The interpreter's limit on the number of digits of a
  conversion (4300 by default) is left out.
\<close>

definition str_digit :: "nat \<Rightarrow> char" where
  "str_digit d = ''0123456789'' ! d"

definition int_digit :: "char \<Rightarrow> nat option" where
  "int_digit c = map_of (zip ''0123456789'' [0, 1, 2, 3, 4, 5, 6, 7, 8, 9]) c"

fun str_nat :: "nat \<Rightarrow> string" where
  "str_nat n = (if n < 10 then [str_digit n] else str_nat (n div 10) @ [str_digit (n mod 10)])"

declare str_nat.simps [simp del]

definition py_str :: "int \<Rightarrow> string" where
  "py_str i = (if i < 0 then CHR ''-'' # str_nat (nat (- i)) else str_nat (nat i))"

text \<open>
  \<^verbatim>\<open>int(s)\<close> for a string: surrounding whitespace is dropped, one sign may lead, and the
  rest is decimal digits, where single underscores may stand between two digits. Anything
  else raises \<^verbatim>\<open>ValueError\<close>.
\<close>

fun int_digits :: "nat \<Rightarrow> string \<Rightarrow> nat option" where
  "int_digits acc [] = Some acc"
| "int_digits acc (c # cs) =
     (if c = CHR ''_'' then
        (case cs of
           [] \<Rightarrow> None
         | d # ds \<Rightarrow> (case int_digit d of None \<Rightarrow> None | Some v \<Rightarrow> int_digits (10 * acc + v) ds))
      else (case int_digit c of None \<Rightarrow> None | Some v \<Rightarrow> int_digits (10 * acc + v) cs))"

definition int_literal :: "string \<Rightarrow> nat option" where
  "int_literal s =
     (case s of
        [] \<Rightarrow> None
      | c # cs \<Rightarrow> (case int_digit c of None \<Rightarrow> None | Some v \<Rightarrow> int_digits v cs))"

definition py_int :: "string \<Rightarrow> exn + int" where
  "py_int s =
     (let t = strip s;
          (sign, ds) = (case t of
                          [] \<Rightarrow> (1, t)
                        | c # cs \<Rightarrow> if c = CHR ''-'' then (- 1, cs)
                                    else if c = CHR ''+'' then (1, cs) else (1, t))
      in case int_literal ds of
           None \<Rightarrow> Inl (ValueError (''invalid literal for int() with base 10: '' @ s))
         | Some n \<Rightarrow> Inr (sign * int n))"

section \<open>JSON values\<close>

text \<open>
  The values of a parsed JSON object that the schemas and the token claims tell apart. An
  object is a map from its keys, \<open>body k = None\<close> when the key \<open>k\<close> is absent.
\<close>

datatype json = JNull | JBool bool | JNum int | JStr string

section \<open>Tables and the session\<close>

text \<open>
  \<^verbatim>\<open>models/user.py\<close> and \<^verbatim>\<open>models/task.py\<close>. Identifiers are Python integers,
  timestamps are seconds since the epoch. The field \<^verbatim>\<open>id\<close> is written \<open>id'\<close>, since
  \<open>id\<close> is the identity function of HOL. Both tables have the columns \<open>id'\<close>,
  \<open>created_at\<close> and \<open>updated_at\<close>; the plain names are those of \<open>Task\<close>, the
  ones of \<open>User\<close> are written \<open>User.id'\<close> and so on.
\<close>

record User =
  id' :: int
  email :: string
  password_hash :: string
  full_name :: "string option"
  is_active :: bool
  created_at :: int
  updated_at :: int

record Task =
  id' :: int
  user_id :: int
  title :: string
  description :: "string option"
  is_complete :: bool
  created_at :: int
  updated_at :: int

text \<open>
  The session is the database as the services see it: the rows of the two tables in
  storage order, and the next value of the \<^verbatim>\<open>tasks.id\<close> sequence
  (\<^verbatim>\<open>INTEGER PRIMARY KEY AUTOINCREMENT\<close>).
\<close>

record Session =
  tasks_tbl :: "Task list"
  users_tbl :: "User list"
  tasks_id_seq :: int

text \<open>
  \<^verbatim>\<open>result.scalar_one_or_none()\<close>: no row is \<^verbatim>\<open>None\<close>, one row is that row, more than
  one row raises.
\<close>

fun scalar_one_or_none :: "'a list \<Rightarrow> exn + 'a option" where
  "scalar_one_or_none [] = Inr None"
| "scalar_one_or_none [x] = Inr (Some x)"
| "scalar_one_or_none (x # y # zs) = Inl MultipleResultsFound"

section \<open>Request and response schemas of the task endpoints\<close>

text \<open>
  \<^verbatim>\<open>models/schemas.py\<close>. \<open>TaskCreate ttl descr\<close> is a validated create request with its
  \<^verbatim>\<open>title\<close> and \<^verbatim>\<open>description\<close>; \<open>TaskUpdate ttl descr\<close> is a validated update
  request, where \<open>None\<close> is Python's \<^verbatim>\<open>None\<close>. Neither has a field for the owner.
  \<^verbatim>\<open>TaskResponse\<close> has exactly the seven fields of \<open>Task\<close>, and
  \<^verbatim>\<open>TaskResponse.model_validate(task)\<close> copies them.
\<close>

datatype TaskCreate = TaskCreate string "string option"

datatype TaskUpdate = TaskUpdate "string option" "string option"

type_synonym TaskResponse = Task

definition model_validate :: "Task \<Rightarrow> TaskResponse" where
  "model_validate task = task"

record TaskListResponse =
  tasks :: "TaskResponse list"
  total_count :: nat
  filtered_count :: nat

section \<open>The task service\<close>

text \<open>
  \<^verbatim>\<open>services/task_service.py\<close>. Each method takes the session and returns either the
  exception it raises or its result; a method that commits returns the session after the
  commit as well. A method that raises has committed nothing.
\<close>

text \<open>
  \<^verbatim>\<open>create_task\<close>: the row is built from the authenticated \<open>uid\<close> and the two fields
  of the request; the database assigns the identifier, and \<open>now\<close> is what
  \<^verbatim>\<open>datetime.utcnow\<close> returns for the two timestamp defaults.
\<close>

definition create_task :: "Session \<Rightarrow> int \<Rightarrow> TaskCreate \<Rightarrow> int \<Rightarrow> exn + Session \<times> TaskResponse" where
  "create_task session uid task_data now =
     (case task_data of TaskCreate ttl descr \<Rightarrow>
        let task = \<lparr>id' = tasks_id_seq session, user_id = uid, title = ttl,
                     description = descr, is_complete = False,
                     created_at = now, updated_at = now\<rparr>
        in Inr (session\<lparr>tasks_tbl := tasks_tbl session @ [task],
                         tasks_id_seq := tasks_id_seq session + 1\<rparr>,
                model_validate task))"

text \<open>
  \<^verbatim>\<open>order_by(Task.created_at.desc())\<close>: newest first; rows with equal timestamps keep
  their storage order.
\<close>

definition order_by_created_at_desc :: "Task list \<Rightarrow> Task list" where
  "order_by_created_at_desc rows = sort_key (\<lambda>t. - created_at t) rows"

definition get_user_tasks :: "Session \<Rightarrow> int \<Rightarrow> string option \<Rightarrow> TaskListResponse" where
  "get_user_tasks session uid status_filter =
     (let query = (\<lambda>t. user_id t = uid);
          query = (if status_filter = Some ''complete''
                     then (\<lambda>t. query t \<and> is_complete t = True)
                   else if status_filter = Some ''incomplete''
                     then (\<lambda>t. query t \<and> is_complete t = False)
                   else query);
          rows = order_by_created_at_desc (filter query (tasks_tbl session));
          total_count = length (filter (\<lambda>t. user_id t = uid) (tasks_tbl session));
          task_responses = map model_validate rows
      in \<lparr>tasks = task_responses, total_count = total_count,
          filtered_count = length task_responses\<rparr>)"

text \<open>
  \<^verbatim>\<open>session.commit()\<close> after an attribute of a loaded row was assigned writes the row
  back under its primary key; \<^verbatim>\<open>session.delete(task)\<close> removes it under its primary key.
  The services never assign \<open>updated_at\<close>, and the migration of the repository defines no
  trigger, so the column keeps its value.
\<close>

definition commit_update :: "Session \<Rightarrow> Task \<Rightarrow> Session" where
  "commit_update session task =
     session\<lparr>tasks_tbl := map (\<lambda>r. if id' r = id' task then task else r) (tasks_tbl session)\<rparr>"

definition commit_delete :: "Session \<Rightarrow> Task \<Rightarrow> Session" where
  "commit_delete session task =
     session\<lparr>tasks_tbl := filter (\<lambda>r. id' r \<noteq> id' task) (tasks_tbl session)\<rparr>"

text \<open>
  The four single-task methods start with the same lookup:
  \<^verbatim>\<open>select(Task).where(Task.id == task_id, Task.user_id == user_id)\<close>, then
  \<^verbatim>\<open>scalar_one_or_none()\<close>, then status 404 when there is no row.
\<close>

definition get_task_by_id :: "Session \<Rightarrow> int \<Rightarrow> int \<Rightarrow> exn + TaskResponse" where
  "get_task_by_id session uid task_id =
     (case scalar_one_or_none
             (filter (\<lambda>t. id' t = task_id \<and> user_id t = uid) (tasks_tbl session)) of
        Inl e \<Rightarrow> Inl e
      | Inr None \<Rightarrow> Inl (HTTPException HTTP_404_NOT_FOUND ''Task not found or access denied'')
      | Inr (Some task) \<Rightarrow> Inr (model_validate task))"

definition update_task :: "Session \<Rightarrow> int \<Rightarrow> int \<Rightarrow> TaskUpdate \<Rightarrow> exn + Session \<times> TaskResponse" where
  "update_task session uid task_id task_data =
     (case scalar_one_or_none
             (filter (\<lambda>t. id' t = task_id \<and> user_id t = uid) (tasks_tbl session)) of
        Inl e \<Rightarrow> Inl e
      | Inr None \<Rightarrow> Inl (HTTPException HTTP_404_NOT_FOUND ''Task not found or access denied'')
      | Inr (Some task) \<Rightarrow>
          (case task_data of TaskUpdate ttl descr \<Rightarrow>
             let task = (case ttl of None \<Rightarrow> task | Some v \<Rightarrow> task\<lparr>title := v\<rparr>);
                 task = (case descr of None \<Rightarrow> task | Some v \<Rightarrow> task\<lparr>description := Some v\<rparr>)
             in Inr (commit_update session task, model_validate task)))"

definition delete_task :: "Session \<Rightarrow> int \<Rightarrow> int \<Rightarrow> exn + Session \<times> unit" where
  "delete_task session uid task_id =
     (case scalar_one_or_none
             (filter (\<lambda>t. id' t = task_id \<and> user_id t = uid) (tasks_tbl session)) of
        Inl e \<Rightarrow> Inl e
      | Inr None \<Rightarrow> Inl (HTTPException HTTP_404_NOT_FOUND ''Task not found or access denied'')
      | Inr (Some task) \<Rightarrow> Inr (commit_delete session task, ()))"

definition toggle_completion :: "Session \<Rightarrow> int \<Rightarrow> int \<Rightarrow> exn + Session \<times> TaskResponse" where
  "toggle_completion session uid task_id =
     (case scalar_one_or_none
             (filter (\<lambda>t. id' t = task_id \<and> user_id t = uid) (tasks_tbl session)) of
        Inl e \<Rightarrow> Inl e
      | Inr None \<Rightarrow> Inl (HTTPException HTTP_404_NOT_FOUND ''Task not found or access denied'')
      | Inr (Some task) \<Rightarrow>
          let task = task\<lparr>is_complete := \<not> is_complete task\<rparr>
          in Inr (commit_update session task, model_validate task))"

section \<open>Validation of the task requests\<close>

text \<open>
  \<^verbatim>\<open>Field(min_length=..., max_length=...)\<close> on a \<^verbatim>\<open>str\<close>: the value is a string whose
  length lies within the bounds. \<^verbatim>\<open>Optional[str]\<close> accepts \<^verbatim>\<open>null\<close> as well. These
  checks see the string as it was sent; the validators of the schema run after them.
\<close>

definition str_field :: "nat \<Rightarrow> nat \<Rightarrow> json \<Rightarrow> exn + string" where
  "str_field min_length max_length j =
     (case j of
        JStr v \<Rightarrow>
          if length v < min_length then Inl (ValidationError ''String is too short'')
          else if max_length < length v then Inl (ValidationError ''String is too long'')
          else Inr v
      | _ \<Rightarrow> Inl (ValidationError ''Input should be a valid string''))"

definition optional_str_field :: "nat \<Rightarrow> nat \<Rightarrow> json \<Rightarrow> exn + string option" where
  "optional_str_field min_length max_length j =
     (case j of
        JNull \<Rightarrow> Inr None
      | _ \<Rightarrow> (case str_field min_length max_length j of Inl e \<Rightarrow> Inl e | Inr v \<Rightarrow> Inr (Some v)))"

text \<open>A \<^verbatim>\<open>ValueError\<close> raised by a \<^verbatim>\<open>field_validator\<close> rejects the request.\<close>

definition field_validator :: "exn + 'a \<Rightarrow> exn + 'a" where
  "field_validator r =
     (case r of
        Inl (ValueError msg) \<Rightarrow> Inl (ValidationError (''Value error, '' @ msg))
      | _ \<Rightarrow> r)"

subsection \<open>\<^verbatim>\<open>TaskCreate\<close>\<close>

definition TaskCreate_title_not_whitespace :: "string \<Rightarrow> exn + string" where
  "TaskCreate_title_not_whitespace v =
     (if strip v = [] then Inl (ValueError ''Title cannot be only whitespace'')
      else Inr (strip v))"

definition TaskCreate_clean_description :: "string option \<Rightarrow> string option" where
  "TaskCreate_clean_description v =
     (case v of
        None \<Rightarrow> None
      | Some s \<Rightarrow>
          if s \<noteq> [] then (let stripped = strip s in if stripped \<noteq> [] then Some stripped else None)
          else None)"

text \<open>
  The two fields of the schema, each from the entry of the request body under its key. A
  missing \<^verbatim>\<open>title\<close> is an error; a missing \<^verbatim>\<open>description\<close> takes the default
  \<^verbatim>\<open>None\<close>, on which no validator runs.
\<close>

definition TaskCreate_title :: "json option \<Rightarrow> exn + string" where
  "TaskCreate_title j =
     (case j of
        None \<Rightarrow> Inl (ValidationError ''Field required'')
      | Some x \<Rightarrow>
          (case str_field 1 200 x of
             Inl e \<Rightarrow> Inl e
           | Inr v \<Rightarrow> field_validator (TaskCreate_title_not_whitespace v)))"

definition TaskCreate_description :: "json option \<Rightarrow> exn + string option" where
  "TaskCreate_description j =
     (case j of
        None \<Rightarrow> Inr None
      | Some x \<Rightarrow>
          (case optional_str_field 0 1000 x of
             Inl e \<Rightarrow> Inl e
           | Inr v \<Rightarrow> Inr (TaskCreate_clean_description v)))"

text \<open>
  The request body against the schema. Keys other than the two fields are ignored. Of
  several errors the first is kept: what matters is that the request is rejected.
\<close>

definition TaskCreate_validate :: "(string \<rightharpoonup> json) \<Rightarrow> exn + TaskCreate" where
  "TaskCreate_validate body =
     (case TaskCreate_title (body ''title'') of
        Inl e \<Rightarrow> Inl e
      | Inr ttl \<Rightarrow>
          (case TaskCreate_description (body ''description'') of
             Inl e \<Rightarrow> Inl e
           | Inr descr \<Rightarrow> Inr (TaskCreate ttl descr)))"

subsection \<open>\<^verbatim>\<open>TaskUpdate\<close>\<close>

definition TaskUpdate_title_not_whitespace :: "string option \<Rightarrow> exn + string option" where
  "TaskUpdate_title_not_whitespace v =
     (case v of
        Some s \<Rightarrow>
          if strip s = [] then Inl (ValueError ''Title cannot be only whitespace'')
          else Inr (Some (strip s))
      | None \<Rightarrow> Inr None)"

definition TaskUpdate_clean_description :: "string option \<Rightarrow> string option" where
  "TaskUpdate_clean_description v =
     (case v of
        None \<Rightarrow> None
      | Some s \<Rightarrow>
          if s \<noteq> [] then (let stripped = strip s in if stripped \<noteq> [] then Some stripped else None)
          else None)"

definition TaskUpdate_title :: "json option \<Rightarrow> exn + string option" where
  "TaskUpdate_title j =
     (case j of
        None \<Rightarrow> Inr None
      | Some x \<Rightarrow>
          (case optional_str_field 1 200 x of
             Inl e \<Rightarrow> Inl e
           | Inr v \<Rightarrow> field_validator (TaskUpdate_title_not_whitespace v)))"

definition TaskUpdate_description :: "json option \<Rightarrow> exn + string option" where
  "TaskUpdate_description j =
     (case j of
        None \<Rightarrow> Inr None
      | Some x \<Rightarrow>
          (case optional_str_field 0 1000 x of
             Inl e \<Rightarrow> Inl e
           | Inr v \<Rightarrow> Inr (TaskUpdate_clean_description v)))"

definition TaskUpdate_validate :: "(string \<rightharpoonup> json) \<Rightarrow> exn + TaskUpdate" where
  "TaskUpdate_validate body =
     (case TaskUpdate_title (body ''title'') of
        Inl e \<Rightarrow> Inl e
      | Inr ttl \<Rightarrow>
          (case TaskUpdate_description (body ''description'') of
             Inl e \<Rightarrow> Inl e
           | Inr descr \<Rightarrow> Inr (TaskUpdate ttl descr)))"

section \<open>The task routes\<close>

text \<open>
  \<^verbatim>\<open>api/tasks.py\<close>, for the two routes with a request body. \<open>uid\<close> is the identity that
  \<^verbatim>\<open>get_current_user_id\<close> returned. The framework builds \<^verbatim>\<open>task_data\<close> from the body with
  the schema, and the handler passes it on to the service.
\<close>

definition api_create_task ::
  "Session \<Rightarrow> int \<Rightarrow> (string \<rightharpoonup> json) \<Rightarrow> int \<Rightarrow> exn + Session \<times> TaskResponse" where
  "api_create_task session uid body now =
     (case TaskCreate_validate body of
        Inl e \<Rightarrow> Inl e
      | Inr task_data \<Rightarrow> create_task session uid task_data now)"

definition api_update_task ::
  "Session \<Rightarrow> int \<Rightarrow> int \<Rightarrow> (string \<rightharpoonup> json) \<Rightarrow> exn + Session \<times> TaskResponse" where
  "api_update_task session uid task_id body =
     (case TaskUpdate_validate body of
        Inl e \<Rightarrow> Inl e
      | Inr task_data \<Rightarrow> update_task session uid task_id task_data)"

text \<open>The session a request leaves behind: the one it found, when it raised.\<close>

definition session_after :: "Session \<Rightarrow> exn + Session \<times> 'a \<Rightarrow> Session" where
  "session_after session r = (case r of Inl e \<Rightarrow> session | Inr (session', x) \<Rightarrow> session')"

section \<open>Signed tokens\<close>

text \<open>
  A token is a string. It is either the compact form of a signed object, which holds the
  algorithm of its header, its claims and its signature, or some other string. The
  signature is a message authentication code over header and claims under a key; the
  code is a parameter \<open>mac\<close> of all that follows (HMAC-SHA256 in the deployment).
\<close>

datatype 'm token = Compact string "string \<rightharpoonup> json" 'm | Garbage string

type_synonym 'm mac = "string \<Rightarrow> string \<Rightarrow> (string \<rightharpoonup> json) \<Rightarrow> 'm"

text \<open>
  Modelled from the spec: \<^verbatim>\<open>jwt.encode\<close> and \<^verbatim>\<open>jwt.decode\<close> belong to the JWT library
  the services import, which is not part of the repository. Following sections 4.1 and 6,
  \<open>jwt_encode\<close> produces the signed token for the claims, and \<open>jwt_decode\<close> fails when
  the token is malformed, when its algorithm is not the declared one, when the signature
  does not verify under the key, or when the expiry has passed at the time \<open>now\<close> of
  the check; otherwise it returns the claims. A subject that is not text and an expiry
  that is not a number count as malformed.
\<close>

definition jwt_encode :: "'m mac \<Rightarrow> (string \<rightharpoonup> json) \<Rightarrow> string \<Rightarrow> string \<Rightarrow> 'm token" where
  "jwt_encode mac claims key algorithm = Compact algorithm claims (mac key algorithm claims)"

definition validate_exp :: "(string \<rightharpoonup> json) \<Rightarrow> int \<Rightarrow> exn + unit" where
  "validate_exp claims now =
     (case claims ''exp'' of
        None \<Rightarrow> Inr ()
      | Some (JNum exp) \<Rightarrow>
          if exp < now then Inl (JWTError ''Signature has expired.'') else Inr ()
      | Some other \<Rightarrow> Inl (JWTError ''Expiration Time claim (exp) must be an integer.''))"

definition validate_sub :: "(string \<rightharpoonup> json) \<Rightarrow> exn + unit" where
  "validate_sub claims =
     (case claims ''sub'' of
        None \<Rightarrow> Inr ()
      | Some (JStr s) \<Rightarrow> Inr ()
      | Some other \<Rightarrow> Inl (JWTError ''Subject must be a string.''))"

definition jwt_decode ::
  "'m mac \<Rightarrow> int \<Rightarrow> 'm token \<Rightarrow> string \<Rightarrow> string list \<Rightarrow> exn + (string \<rightharpoonup> json)" where
  "jwt_decode mac now token key algorithms =
     (case token of
        Garbage s \<Rightarrow> Inl (JWTError ''Not enough segments'')
      | Compact alg claims signature \<Rightarrow>
          if alg \<notin> set algorithms then Inl (JWTError ''The specified alg value is not allowed'')
          else if signature \<noteq> mac key alg claims
            then Inl (JWTError ''Signature verification failed.'')
          else
            (case validate_exp claims now of
               Inl e \<Rightarrow> Inl e
             | Inr u \<Rightarrow>
                 (case validate_sub claims of
                    Inl e \<Rightarrow> Inl e
                  | Inr v \<Rightarrow> Inr claims)))"

section \<open>Issuing and verifying tokens\<close>

text \<open>
  \<^verbatim>\<open>services/user_service.py\<close> and \<^verbatim>\<open>services/auth.py\<close> read the same environment
  variable into \<^verbatim>\<open>BETTER_AUTH_SECRET\<close>; it is the parameter \<open>secret\<close>.
\<close>

definition ALGORITHM :: string where
  "ALGORITHM = ''HS256''"

definition ACCESS_TOKEN_EXPIRE_HOURS :: int where
  "ACCESS_TOKEN_EXPIRE_HOURS = 24"

text \<open>
  \<^verbatim>\<open>create_access_token\<close> reads the clock twice: \<open>now_exp\<close> for the expiry and
  \<open>now_iat\<close> for the time of issue, both in seconds.
\<close>

definition create_access_token :: "'m mac \<Rightarrow> string \<Rightarrow> int \<Rightarrow> int \<Rightarrow> int \<Rightarrow> 'm token" where
  "create_access_token mac secret now_exp now_iat uid =
     (let expire = now_exp + ACCESS_TOKEN_EXPIRE_HOURS * 3600;
          to_encode = [''sub'' \<mapsto> JStr (py_str uid), ''exp'' \<mapsto> JNum expire,
                       ''iat'' \<mapsto> JNum now_iat]
      in jwt_encode mac to_encode secret ALGORITHM)"

text \<open>\<^verbatim>\<open>str(e)\<close> of an exception, as the detail of a response quotes it.\<close>

definition exn_str :: "exn \<Rightarrow> string" where
  "exn_str e =
     (case e of
        HTTPException code d \<Rightarrow> py_str (int code) @ '': '' @ d
      | MultipleResultsFound \<Rightarrow> ''Multiple rows were found when one or none was required''
      | ValidationError msg \<Rightarrow> msg
      | JWTError msg \<Rightarrow> msg
      | ValueError msg \<Rightarrow> msg)"

text \<open>
  \<^verbatim>\<open>int(user_id)\<close> on the subject claim: a string is parsed, a number is itself, a
  truth value is 0 or 1. \<^verbatim>\<open>payload.get("sub")\<close> is \<^verbatim>\<open>None\<close> for a missing claim and
  for \<^verbatim>\<open>null\<close>.
\<close>

definition sub_to_int :: "json \<Rightarrow> exn + int" where
  "sub_to_int j =
     (case j of
        JNull \<Rightarrow> Inl (HTTPException HTTP_401_UNAUTHORIZED ''Invalid token: missing user ID'')
      | JBool b \<Rightarrow> Inr (if b then 1 else 0)
      | JNum n \<Rightarrow> Inr n
      | JStr s \<Rightarrow> py_int s)"

text \<open>
  \<^verbatim>\<open>verify_token\<close>: the body of the \<^verbatim>\<open>try\<close>, then the three handlers in their order.
  The HTTP exception that the body raises for a missing subject is no \<^verbatim>\<open>JWTError\<close> and
  no \<^verbatim>\<open>ValueError\<close>, so it reaches the last handler.
\<close>

definition verify_token :: "'m mac \<Rightarrow> string \<Rightarrow> int \<Rightarrow> 'm token \<Rightarrow> exn + int" where
  "verify_token mac secret now token =
     (let attempt =
            (case jwt_decode mac now token secret [ALGORITHM] of
               Inl e \<Rightarrow> Inl e
             | Inr payload \<Rightarrow>
                 (case payload ''sub'' of
                    None \<Rightarrow> Inl (HTTPException HTTP_401_UNAUTHORIZED
                                   ''Invalid token: missing user ID'')
                  | Some j \<Rightarrow> sub_to_int j))
      in case attempt of
           Inr uid \<Rightarrow> Inr uid
         | Inl (JWTError msg) \<Rightarrow>
             Inl (HTTPException HTTP_401_UNAUTHORIZED (''Invalid or expired token: '' @ msg))
         | Inl (ValueError msg) \<Rightarrow>
             Inl (HTTPException HTTP_401_UNAUTHORIZED
                   ''Invalid token: user ID must be an integer'')
         | Inl e \<Rightarrow>
             Inl (HTTPException HTTP_401_UNAUTHORIZED
                   (''Token verification failed: '' @ exn_str e)))"

text \<open>
  \<^verbatim>\<open>middleware/auth.py\<close>: the identity of a request is the subject of its bearer
  token, and nothing else.
\<close>

definition get_current_user_id ::
  "'m mac \<Rightarrow> string \<Rightarrow> int \<Rightarrow> 'm token option \<Rightarrow> exn + int" where
  "get_current_user_id mac secret now credentials =
     (case credentials of
        None \<Rightarrow> Inl (HTTPException HTTP_401_UNAUTHORIZED ''Missing authentication token'')
      | Some token \<Rightarrow> verify_token mac secret now token)"

text \<open>The expiry a token carries, if it carries one.\<close>

definition token_exp :: "'m token \<Rightarrow> int option" where
  "token_exp token =
     (case token of
        Compact alg claims signature \<Rightarrow>
          (case claims ''exp'' of Some (JNum exp) \<Rightarrow> Some exp | _ \<Rightarrow> None)
      | Garbage s \<Rightarrow> None)"

section \<open>Login\<close>

text \<open>
  \<^verbatim>\<open>UserService.login_user\<close>. The password hasher behind \<^verbatim>\<open>verify_password\<close> is a
  parameter that tells whether a password matches a hash. The body of the \<^verbatim>\<open>try\<close>
  comes first; an HTTP exception passes the handlers unchanged, every other exception
  becomes status 500.
\<close>

datatype UserLoginRequest = UserLoginRequest string string

datatype UserResponse = UserResponse int string "string option" bool int

datatype 'm TokenResponse = TokenResponse "'m token" string UserResponse

definition UserResponse_model_validate :: "User \<Rightarrow> UserResponse" where
  "UserResponse_model_validate user =
     UserResponse (User.id' user) (email user) (full_name user) (is_active user)
       (User.created_at user)"

definition login_user ::
  "'m mac \<Rightarrow> string \<Rightarrow> (string \<Rightarrow> string \<Rightarrow> bool) \<Rightarrow> int \<Rightarrow> int \<Rightarrow> Session
     \<Rightarrow> UserLoginRequest \<Rightarrow> exn + 'm TokenResponse" where
  "login_user mac secret verify_password now_exp now_iat session login_data =
     (case login_data of UserLoginRequest login_email login_password \<Rightarrow>
        let attempt =
              (case scalar_one_or_none
                      (filter (\<lambda>u. email u = login_email) (users_tbl session)) of
                 Inl e \<Rightarrow> Inl e
               | Inr None \<Rightarrow>
                   Inl (HTTPException HTTP_401_UNAUTHORIZED ''Incorrect email or password'')
               | Inr (Some user) \<Rightarrow>
                   if \<not> verify_password login_password (password_hash user)
                     then Inl (HTTPException HTTP_401_UNAUTHORIZED
                                ''Incorrect email or password'')
                   else if \<not> is_active user
                     then Inl (HTTPException HTTP_403_FORBIDDEN ''Account is inactive'')
                   else Inr (TokenResponse
                               (create_access_token mac secret now_exp now_iat (User.id' user))
                               ''bearer'' (UserResponse_model_validate user)))
        in case attempt of
             Inr response \<Rightarrow> Inr response
           | Inl (HTTPException code d) \<Rightarrow> Inl (HTTPException code d)
           | Inl e \<Rightarrow>
               Inl (HTTPException HTTP_500_INTERNAL_SERVER_ERROR
                     ''Login failed due to server error''))"

section \<open>Invariants of the store, and sample data\<close>

text \<open>The primary key of \<^verbatim>\<open>tasks\<close>: no two rows share an identifier.\<close>

definition tasks_pk :: "Session \<Rightarrow> bool" where
  "tasks_pk session = distinct (map id' (tasks_tbl session))"

text \<open>
  A store with two tasks and two accounts, the second account inactive; a toy
  authentication code that keeps key, algorithm and the three claims side by side; and a
  toy password hasher.
\<close>

definition demo_task :: Task where
  "demo_task = \<lparr>id' = 7, user_id = 1, title = ''pay rent'', description = Some ''by Friday'',
                 is_complete = False, created_at = 100, updated_at = 100\<rparr>"

definition demo_session :: Session where
  "demo_session =
     \<lparr>tasks_tbl =
        [\<lparr>id' = 7, user_id = 1, title = ''pay rent'', description = Some ''by Friday'',
          is_complete = False, created_at = 100, updated_at = 100\<rparr>,
         \<lparr>id' = 8, user_id = 2, title = ''call home'', description = None,
          is_complete = True, created_at = 200, updated_at = 250\<rparr>],
      users_tbl =
        [\<lparr>User.id' = 1, email = ''a@x.com'', password_hash = ''#pw12345678'', full_name = None,
          is_active = True, User.created_at = 50, User.updated_at = 50\<rparr>,
         \<lparr>User.id' = 2, email = ''b@x.com'', password_hash = ''#secret-of-b'', full_name = None,
          is_active = False, User.created_at = 60, User.updated_at = 60\<rparr>],
      tasks_id_seq = 9\<rparr>"

definition demo_user :: User where
  "demo_user = \<lparr>User.id' = 2, email = ''b@x.com'', password_hash = ''#secret-of-b'',
                 full_name = None, is_active = False, User.created_at = 60, User.updated_at = 60\<rparr>"

definition demo_mac :: "(string \<times> string \<times> json option \<times> json option \<times> json option) mac" where
  "demo_mac key alg claims = (key, alg, claims ''sub'', claims ''exp'', claims ''iat'')"

definition demo_verify_password :: "string \<Rightarrow> string \<Rightarrow> bool" where
  "demo_verify_password plain_password hashed_password =
     (hashed_password = CHR ''#'' # plain_password)"

section \<open>Decimal conversion: \<^verbatim>\<open>int(str(i))\<close> is \<open>i\<close>\<close>

lemma int_digit_str_digit: "d < 10 \<Longrightarrow> int_digit (str_digit d) = Some d"
proof -
  assume "d < 10"
  then have "d \<in> {0, 1, 2, 3, 4, 5, 6, 7, 8, 9}" by auto
  then show ?thesis
    by (auto simp: int_digit_def str_digit_def)
qed

lemma str_digit_plain:
  "d < 10 \<Longrightarrow> \<not> isspace (str_digit d) \<and> str_digit d \<noteq> CHR ''_''
     \<and> str_digit d \<noteq> CHR ''-'' \<and> str_digit d \<noteq> CHR ''+''"
proof -
  assume "d < 10"
  then have "d \<in> {0, 1, 2, 3, 4, 5, 6, 7, 8, 9}" by auto
  then show ?thesis
    by (auto simp: isspace_def str_digit_def)
qed

lemma str_nat_chars: "c \<in> set (str_nat n) \<Longrightarrow> \<exists>d < 10. c = str_digit d"
proof (induction n rule: str_nat.induct)
  case (1 n)
  show ?case
  proof (cases "n < 10")
    case True
    with "1.prems" show ?thesis by (auto simp: str_nat.simps [of n])
  next
    case False
    with "1.prems" have "c \<in> set (str_nat (n div 10)) \<or> c = str_digit (n mod 10)"
      by (auto simp: str_nat.simps [of n])
    then show ?thesis
    proof
      assume "c \<in> set (str_nat (n div 10))"
      with "1.IH" False show ?thesis by simp
    next
      assume "c = str_digit (n mod 10)"
      moreover have "n mod 10 < 10" by simp
      ultimately show ?thesis by blast
    qed
  qed
qed

lemma str_nat_not_Nil: "str_nat n \<noteq> []"
  by (subst str_nat.simps) simp

lemma int_digits_snoc:
  "\<forall>c \<in> set xs. \<exists>d < 10. c = str_digit d \<Longrightarrow> d < 10 \<Longrightarrow>
   int_digits acc (xs @ [str_digit d]) = map_option (\<lambda>m. 10 * m + d) (int_digits acc xs)"
proof (induction xs arbitrary: acc)
  case Nil
  then show ?case by (simp add: int_digit_str_digit str_digit_plain)
next
  case (Cons x xs)
  from Cons.prems(1) obtain e where e: "e < 10" "x = str_digit e" by auto
  from Cons.prems(1) have rest: "\<forall>c \<in> set xs. \<exists>d < 10. c = str_digit d" by simp
  show ?case
    using Cons.IH [OF rest Cons.prems(2)] e
    by (simp add: int_digit_str_digit str_digit_plain)
qed

lemma int_digits_str_nat: "int_digits 0 (str_nat n) = Some n"
proof (induction n rule: str_nat.induct)
  case (1 n)
  show ?case
  proof (cases "n < 10")
    case True
    then show ?thesis
      by (simp add: str_nat.simps [of n] int_digit_str_digit str_digit_plain)
  next
    case False
    have digits: "\<forall>c \<in> set (str_nat (n div 10)). \<exists>d < 10. c = str_digit d"
      using str_nat_chars by blast
    have "int_digits 0 (str_nat (n div 10) @ [str_digit (n mod 10)])
            = map_option (\<lambda>m. 10 * m + n mod 10) (int_digits 0 (str_nat (n div 10)))"
      using digits by (rule int_digits_snoc) simp
    with "1.IH" False show ?thesis
      by (simp add: str_nat.simps [of n])
  qed
qed

lemma int_literal_str_nat: "int_literal (str_nat n) = Some n"
proof (cases "str_nat n")
  case Nil
  then show ?thesis by (simp add: str_nat_not_Nil)
next
  case (Cons c cs)
  then have "c \<in> set (str_nat n)" by simp
  then obtain d where d: "d < 10" "c = str_digit d"
    using str_nat_chars by blast
  have "int_digits 0 (c # cs) = Some n"
    using int_digits_str_nat [of n] Cons by simp
  with d Cons show ?thesis
    by (simp add: int_literal_def int_digit_str_digit str_digit_plain)
qed

lemma strip_no_space: "\<forall>c \<in> set s. \<not> isspace c \<Longrightarrow> strip s = s"
proof -
  assume a: "\<forall>c \<in> set s. \<not> isspace c"
  then have "dropWhile isspace s = s" by (cases s) auto
  moreover from a have "dropWhile isspace (rev s) = rev s" by (cases "rev s") auto
  ultimately show ?thesis by (simp add: strip_def)
qed

lemma py_int_py_str: "py_int (py_str i) = Inr i"
proof (cases "i < 0")
  case True
  let ?ds = "str_nat (nat (- i))"
  have "\<not> isspace CHR ''-''" by (simp add: isspace_def)
  moreover have "\<forall>c \<in> set ?ds. \<not> isspace c"
    using str_nat_chars str_digit_plain by blast
  ultimately have "\<forall>c \<in> set (CHR ''-'' # ?ds). \<not> isspace c" by simp
  then have "strip (CHR ''-'' # ?ds) = CHR ''-'' # ?ds" by (rule strip_no_space)
  with True show ?thesis
    by (simp add: py_int_def py_str_def int_literal_str_nat)
next
  case False
  let ?ds = "str_nat (nat i)"
  have "\<forall>c \<in> set ?ds. \<not> isspace c"
    using str_nat_chars str_digit_plain by blast
  then have st: "strip ?ds = ?ds" by (rule strip_no_space)
  obtain c cs where cs: "?ds = c # cs"
    using str_nat_not_Nil [of "nat i"] by (cases ?ds) auto
  then have "c \<in> set ?ds" by simp
  then obtain d where "d < 10" "c = str_digit d"
    using str_nat_chars by blast
  then have "c \<noteq> CHR ''-'' \<and> c \<noteq> CHR ''+''"
    using str_digit_plain by simp
  moreover have "int_literal (c # cs) = Some (nat i)"
    using int_literal_str_nat [of "nat i"] cs by simp
  ultimately show ?thesis using False st cs
    by (simp add: py_int_def py_str_def)
qed

section \<open>The guarded lookup under the primary key\<close>

lemma filter_pk_row:
  "distinct (map id' rows) \<Longrightarrow> T \<in> set rows \<Longrightarrow>
   filter (\<lambda>t. id' t = id' T \<and> user_id t = uid) rows = (if user_id T = uid then [T] else [])"
proof (induction rows)
  case Nil
  then show ?case by simp
next
  case (Cons r rows)
  show ?case
  proof (cases "r = T")
    case True
    from Cons.prems(1) True have "id' T \<notin> id' ` set rows"
      by simp
    then have "\<forall>t \<in> set rows. id' t \<noteq> id' T"
      by (metis imageI)
    then have "filter (\<lambda>t. id' t = id' T \<and> user_id t = uid) rows = []"
      by (simp add: filter_empty_conv)
    with True show ?thesis by simp
  next
    case False
    with Cons.prems have in_rows: "T \<in> set rows" and dist: "distinct (map id' rows)"
      and "id' r \<notin> id' ` set rows"
      by auto
    then have "id' r \<noteq> id' T" by auto
    with Cons.IH [OF dist in_rows] show ?thesis by simp
  qed
qed

lemma filter_absent_id:
  "task_id \<notin> id' ` set rows \<Longrightarrow> filter (\<lambda>t. id' t = task_id \<and> user_id t = uid) rows = []"
  by (auto simp: filter_empty_conv)

lemma lookup_found:
  "tasks_pk s \<Longrightarrow> T \<in> set (tasks_tbl s) \<Longrightarrow> user_id T = uid \<Longrightarrow>
   scalar_one_or_none (filter (\<lambda>t. id' t = id' T \<and> user_id t = uid) (tasks_tbl s))
     = Inr (Some T)"
  by (simp add: tasks_pk_def filter_pk_row)

lemma lookup_foreign:
  "tasks_pk s \<Longrightarrow> T \<in> set (tasks_tbl s) \<Longrightarrow> user_id T \<noteq> uid \<Longrightarrow>
   scalar_one_or_none (filter (\<lambda>t. id' t = id' T \<and> user_id t = uid) (tasks_tbl s))
     = Inr None"
  by (simp add: tasks_pk_def filter_pk_row)

lemma lookup_absent:
  "task_id \<notin> id' ` set (tasks_tbl s) \<Longrightarrow>
   scalar_one_or_none (filter (\<lambda>t. id' t = task_id \<and> user_id t = uid) (tasks_tbl s))
     = Inr None"
  by (simp add: filter_absent_id)

section \<open>Claims about ownership\<close>

text \<open>
  C1. Let the task \<open>T\<close> be stored and owned by \<open>A\<close>, and let \<open>B \<noteq> A\<close> be any other
  identity. Then \<^verbatim>\<open>get_task_by_id\<close>, \<^verbatim>\<open>update_task\<close>, \<^verbatim>\<open>delete_task\<close> and
  \<^verbatim>\<open>toggle_completion\<close>, called with identity \<open>B\<close> and the identifier of \<open>T\<close>, all
  raise the HTTP exception with status 404 (so none of them succeeds and none raises 403),
  and an identifier \<open>n\<close> that no stored task has raises the very same exception.
\<close>

theorem cross_user_access_is_not_found:
  assumes "tasks_pk s" and "T \<in> set (tasks_tbl s)" and "user_id T = A" and "B \<noteq> A"
    and "n \<notin> id' ` set (tasks_tbl s)"
  shows "get_task_by_id s B (id' T)
           = Inl (HTTPException HTTP_404_NOT_FOUND ''Task not found or access denied'')
       \<and> update_task s B (id' T) task_data
           = Inl (HTTPException HTTP_404_NOT_FOUND ''Task not found or access denied'')
       \<and> delete_task s B (id' T)
           = Inl (HTTPException HTTP_404_NOT_FOUND ''Task not found or access denied'')
       \<and> toggle_completion s B (id' T)
           = Inl (HTTPException HTTP_404_NOT_FOUND ''Task not found or access denied'')
       \<and> get_task_by_id s B n = get_task_by_id s B (id' T)
       \<and> update_task s B n task_data = update_task s B (id' T) task_data
       \<and> delete_task s B n = delete_task s B (id' T)
       \<and> toggle_completion s B n = toggle_completion s B (id' T)"
proof -
  from assms have foreign: "user_id T \<noteq> B" by simp
  have there: "scalar_one_or_none
        (filter (\<lambda>t. id' t = id' T \<and> user_id t = B) (tasks_tbl s)) = Inr None"
    using assms(1,2) foreign by (rule lookup_foreign)
  have nowhere: "scalar_one_or_none
        (filter (\<lambda>t. id' t = n \<and> user_id t = B) (tasks_tbl s)) = Inr None"
    using assms(5) by (rule lookup_absent)
  show ?thesis
    by (simp add: get_task_by_id_def update_task_def delete_task_def toggle_completion_def
        there nowhere)
qed

text \<open>
  The theorem at the sample store: task 7 of user 1 is asked for by user 2, and no task
  has the identifier 99.
\<close>

theorem cross_user_access_is_not_found_witness:
  "tasks_pk demo_session \<and> demo_task \<in> set (tasks_tbl demo_session) \<and> user_id demo_task = 1
   \<and> (2::int) \<noteq> 1 \<and> 99 \<notin> id' ` set (tasks_tbl demo_session)
   \<and> get_task_by_id demo_session 2 7
        = Inl (HTTPException HTTP_404_NOT_FOUND ''Task not found or access denied'')
   \<and> update_task demo_session 2 7 (TaskUpdate (Some ''mine now'') None)
        = Inl (HTTPException HTTP_404_NOT_FOUND ''Task not found or access denied'')
   \<and> delete_task demo_session 2 7
        = Inl (HTTPException HTTP_404_NOT_FOUND ''Task not found or access denied'')
   \<and> toggle_completion demo_session 2 7
        = Inl (HTTPException HTTP_404_NOT_FOUND ''Task not found or access denied'')
   \<and> get_task_by_id demo_session 2 99 = get_task_by_id demo_session 2 7"
proof -
  have h1: "tasks_pk demo_session" by (simp add: tasks_pk_def demo_session_def)
  have h2: "demo_task \<in> set (tasks_tbl demo_session)"
    by (simp add: demo_session_def demo_task_def)
  have h3: "user_id demo_task = 1" by (simp add: demo_task_def)
  have h4: "(2::int) \<noteq> 1" by simp
  have h5: "99 \<notin> id' ` set (tasks_tbl demo_session)" by (simp add: demo_session_def)
  have seven: "id' demo_task = 7" by (simp add: demo_task_def)
  from cross_user_access_is_not_found [OF h1 h2 h3 h4 h5,
      of "TaskUpdate (Some ''mine now'') None"]
  show ?thesis using h1 h2 h3 h5 by (simp add: seven)
qed

section \<open>Claims about creating and listing\<close>

lemma create_task_result:
  "create_task s A (TaskCreate ttl descr) now =
     Inr (s\<lparr>tasks_tbl := tasks_tbl s @
                [\<lparr>id' = tasks_id_seq s, user_id = A, title = ttl, description = descr,
                  is_complete = False, created_at = now, updated_at = now\<rparr>],
             tasks_id_seq := tasks_id_seq s + 1\<rparr>,
          \<lparr>id' = tasks_id_seq s, user_id = A, title = ttl, description = descr,
           is_complete = False, created_at = now, updated_at = now\<rparr>)"
  by (simp add: create_task_def model_validate_def Let_def)

lemma create_task_appends:
  "\<exists>s' r. create_task s A task_data now = Inr (s', r) \<and> user_id r = A
      \<and> tasks_tbl s' = tasks_tbl s @ [r]"
  by (cases task_data) (simp add: create_task_result)

text \<open>
  C2. For every identity \<open>A\<close> and every validated create request, \<^verbatim>\<open>create_task\<close>
  succeeds, and the task it returns is the row it appended to the table and has the owner
  \<open>A\<close>. For every request body, an entry under a key \<open>k\<close> other than \<^verbatim>\<open>title\<close> and
  \<^verbatim>\<open>description\<close> (such as \<^verbatim>\<open>user_id\<close>) has no effect on what the route does, and
  whenever the route succeeds the stored task has the owner \<open>A\<close>.
\<close>

theorem create_task_owner_is_caller:
  assumes "k \<noteq> ''title''" and "k \<noteq> ''description''"
  shows "(\<exists>s' r. create_task s A task_data now = Inr (s', r) \<and> user_id r = A
            \<and> tasks_tbl s' = tasks_tbl s @ [r])
       \<and> api_create_task s A (body(k \<mapsto> j)) now = api_create_task s A body now
       \<and> (\<forall>s' r. api_create_task s A body now = Inr (s', r)
            \<longrightarrow> user_id r = A \<and> tasks_tbl s' = tasks_tbl s @ [r])"
proof -
  from assms have "(body(k \<mapsto> j)) ''title'' = body ''title''"
    and "(body(k \<mapsto> j)) ''description'' = body ''description''"
    by auto
  then have same: "TaskCreate_validate (body(k \<mapsto> j)) = TaskCreate_validate body"
    by (simp only: TaskCreate_validate_def)
  have route: "\<forall>s' r. api_create_task s A body now = Inr (s', r)
            \<longrightarrow> user_id r = A \<and> tasks_tbl s' = tasks_tbl s @ [r]"
  proof (intro allI impI)
    fix s' r
    assume ok: "api_create_task s A body now = Inr (s', r)"
    then obtain task_data' where "create_task s A task_data' now = Inr (s', r)"
      by (auto simp: api_create_task_def split: sum.splits)
    with create_task_appends [of s A task_data' now]
    show "user_id r = A \<and> tasks_tbl s' = tasks_tbl s @ [r]" by auto
  qed
  have first: "\<exists>s' r. create_task s A task_data now = Inr (s', r) \<and> user_id r = A
            \<and> tasks_tbl s' = tasks_tbl s @ [r]"
    by (rule create_task_appends)
  have second: "api_create_task s A (body(k \<mapsto> j)) now = api_create_task s A body now"
    by (simp only: api_create_task_def same)
  from first second route show ?thesis by (intro conjI)
qed

text \<open>
  At the sample store, user 1 sends a body that names user 2 as the owner: the body is
  treated as the one without that entry, and the created task belongs to user 1.
\<close>

theorem create_task_owner_is_caller_witness:
  "''user_id'' \<noteq> ''title'' \<and> ''user_id'' \<noteq> ''description''
   \<and> api_create_task demo_session 1 [''title'' \<mapsto> JStr ''buy milk'', ''user_id'' \<mapsto> JNum 2] 300
       = api_create_task demo_session 1 [''title'' \<mapsto> JStr ''buy milk''] 300
   \<and> map_sum (\<lambda>e. e) (\<lambda>(s', r). user_id r)
        (api_create_task demo_session 1 [''title'' \<mapsto> JStr ''buy milk'', ''user_id'' \<mapsto> JNum 2] 300)
       = Inr 1"
proof -
  have h1: "''user_id'' \<noteq> ''title''" by simp
  have h2: "''user_id'' \<noteq> ''description''" by simp
  have run: "api_create_task demo_session 1 [''title'' \<mapsto> JStr ''buy milk''] 300
      = Inr (demo_session\<lparr>tasks_tbl := tasks_tbl demo_session @
                [\<lparr>id' = 9, user_id = 1, title = ''buy milk'', description = None,
                  is_complete = False, created_at = 300, updated_at = 300\<rparr>],
             tasks_id_seq := 10\<rparr>,
          \<lparr>id' = 9, user_id = 1, title = ''buy milk'', description = None,
           is_complete = False, created_at = 300, updated_at = 300\<rparr>)"
    by (simp add: api_create_task_def TaskCreate_validate_def TaskCreate_title_def
        TaskCreate_description_def str_field_def field_validator_def
        TaskCreate_title_not_whitespace_def strip_def isspace_def create_task_result
        demo_session_def)
  from create_task_owner_is_caller [OF h1 h2,
      of demo_session 1 "TaskCreate ''x'' None" 300 "[''title'' \<mapsto> JStr ''buy milk'']" "JNum 2"]
  have "api_create_task demo_session 1
          [''title'' \<mapsto> JStr ''buy milk'', ''user_id'' \<mapsto> JNum 2] 300
        = api_create_task demo_session 1 [''title'' \<mapsto> JStr ''buy milk''] 300"
    by simp
  then show ?thesis using run by simp
qed

text \<open>
  C5. The tasks listed with the filter \<^verbatim>\<open>complete\<close> are among the tasks listed without
  a filter, for the same user and store. In every list response, whatever the filter,
  \<^verbatim>\<open>filtered_count\<close> is at most \<^verbatim>\<open>total_count\<close>, and \<^verbatim>\<open>total_count\<close> is the number of all
  tasks of the caller.
\<close>

theorem complete_filter_subset_and_counts:
  "set (tasks (get_user_tasks s u (Some ''complete''))) \<subseteq> set (tasks (get_user_tasks s u None))
   \<and> filtered_count (get_user_tasks s u status_filter)
       \<le> total_count (get_user_tasks s u status_filter)
   \<and> total_count (get_user_tasks s u status_filter)
       = length (filter (\<lambda>t. user_id t = u) (tasks_tbl s))"
proof -
  have narrow: "length (filter (\<lambda>t. user_id t = u \<and> P t) rows)
      \<le> length (filter (\<lambda>t. user_id t = u) rows)" for P and rows :: "Task list"
    by (induction rows) auto
  have subset: "set (tasks (get_user_tasks s u (Some ''complete'')))
      \<subseteq> set (tasks (get_user_tasks s u None))"
    by (auto simp: get_user_tasks_def order_by_created_at_desc_def model_validate_def Let_def)
  have counts: "filtered_count (get_user_tasks s u status_filter)
       \<le> total_count (get_user_tasks s u status_filter)"
    using narrow [of is_complete "tasks_tbl s"] narrow [of "\<lambda>t. \<not> is_complete t" "tasks_tbl s"]
    by (simp add: get_user_tasks_def order_by_created_at_desc_def Let_def)
  have total: "total_count (get_user_tasks s u status_filter)
       = length (filter (\<lambda>t. user_id t = u) (tasks_tbl s))"
    by (simp add: get_user_tasks_def Let_def)
  from subset counts total show ?thesis by simp
qed

text \<open>
  C8. A status filter that is neither \<^verbatim>\<open>complete\<close> nor \<^verbatim>\<open>incomplete\<close> gives exactly the
  response of the list without a filter: the same tasks in the same order and the same
  two counts. The list operation has no error result at all.
\<close>

theorem unknown_filter_is_unfiltered:
  assumes "f \<noteq> ''complete''" and "f \<noteq> ''incomplete''"
  shows "get_user_tasks s u (Some f) = get_user_tasks s u None"
  by (simp only: get_user_tasks_def assms option.inject option.distinct if_False)

text \<open>At the sample store, user 1 lists with the filter \<^verbatim>\<open>done\<close> and gets the one task.\<close>

theorem unknown_filter_is_unfiltered_witness:
  "''done'' \<noteq> ''complete'' \<and> ''done'' \<noteq> ''incomplete''
   \<and> get_user_tasks demo_session 1 (Some ''done'') = get_user_tasks demo_session 1 None
   \<and> get_user_tasks demo_session 1 None
       = \<lparr>tasks = [demo_task], total_count = 1, filtered_count = 1\<rparr>"
proof -
  have h1: "''done'' \<noteq> ''complete''" by simp
  have h2: "''done'' \<noteq> ''incomplete''" by simp
  have run: "get_user_tasks demo_session 1 None
       = \<lparr>tasks = [demo_task], total_count = 1, filtered_count = 1\<rparr>"
    by (simp add: get_user_tasks_def order_by_created_at_desc_def model_validate_def
        Let_def demo_session_def demo_task_def)
  from unknown_filter_is_unfiltered [OF h1 h2, of demo_session 1] run
  show ?thesis by simp
qed

section \<open>Claims about toggling and updating\<close>

lemma commit_update_ids: "map id' (tasks_tbl (commit_update s T')) = map id' (tasks_tbl s)"
  by (simp add: commit_update_def comp_def cong: map_cong)

lemma commit_update_pk: "tasks_pk (commit_update s T') = tasks_pk s"
  by (simp add: tasks_pk_def commit_update_ids)

lemma commit_update_mem:
  "T \<in> set (tasks_tbl s) \<Longrightarrow> id' T' = id' T \<Longrightarrow> T' \<in> set (tasks_tbl (commit_update s T'))"
  by (force simp: commit_update_def)

lemma commit_update_rows:
  assumes "tasks_pk s" and "T \<in> set (tasks_tbl s)" and "id' T' = id' T"
  shows "tasks_tbl (commit_update s T') = map (\<lambda>r. if r = T then T' else r) (tasks_tbl s)"
proof -
  have "id' r = id' T \<longleftrightarrow> r = T" if "r \<in> set (tasks_tbl s)" for r
    using assms(1,2) that by (auto simp: tasks_pk_def distinct_map dest: inj_onD)
  then show ?thesis
    using assms(3) by (simp add: commit_update_def cong: map_cong)
qed

lemma commit_update_same:
  assumes "tasks_pk s" and "T \<in> set (tasks_tbl s)"
  shows "tasks_tbl (commit_update s T) = tasks_tbl s"
proof -
  have "tasks_tbl (commit_update s T) = map (\<lambda>r. if r = T then T else r) (tasks_tbl s)"
    using assms by (rule commit_update_rows) simp
  also have "\<dots> = map (\<lambda>r. r) (tasks_tbl s)"
    by (rule map_cong) auto
  finally show ?thesis by simp
qed

lemma commit_update_twice:
  "id' T1 = id' T2 \<Longrightarrow>
   tasks_tbl (commit_update (commit_update s T1) T2) = tasks_tbl (commit_update s T2)"
  by (simp add: commit_update_def comp_def)

lemma toggle_completion_owned:
  "tasks_pk s \<Longrightarrow> T \<in> set (tasks_tbl s) \<Longrightarrow> user_id T = uid \<Longrightarrow>
   toggle_completion s uid (id' T)
     = Inr (commit_update s (T\<lparr>is_complete := \<not> is_complete T\<rparr>),
            T\<lparr>is_complete := \<not> is_complete T\<rparr>)"
  by (simp add: toggle_completion_def lookup_found model_validate_def Let_def)

lemma update_task_owned:
  "tasks_pk s \<Longrightarrow> T \<in> set (tasks_tbl s) \<Longrightarrow> user_id T = uid \<Longrightarrow>
   update_task s uid (id' T) (TaskUpdate ttl descr)
     = Inr (commit_update s
              (T\<lparr>title := (case ttl of None \<Rightarrow> title T | Some v \<Rightarrow> v),
                 description := (case descr of None \<Rightarrow> description T | Some v \<Rightarrow> Some v)\<rparr>),
            T\<lparr>title := (case ttl of None \<Rightarrow> title T | Some v \<Rightarrow> v),
              description := (case descr of None \<Rightarrow> description T | Some v \<Rightarrow> Some v)\<rparr>)"
  by (cases ttl; cases descr)
     (simp_all add: update_task_def lookup_found model_validate_def Let_def)

text \<open>
  C7. For a stored task \<open>T\<close> of the caller, \<^verbatim>\<open>toggle_completion\<close> succeeds and returns
  the task with the negated flag; called again on the session it left, it succeeds again
  and returns the task with the flag \<open>T\<close> had at the start, which is also the flag of the
  row then stored under the identifier of \<open>T\<close>.
\<close>

theorem toggle_twice_restores_flag:
  assumes "tasks_pk s" and "T \<in> set (tasks_tbl s)" and "user_id T = uid"
  shows "\<exists>s1 r1 s2 r2.
           toggle_completion s uid (id' T) = Inr (s1, r1)
         \<and> is_complete r1 = (\<not> is_complete T)
         \<and> toggle_completion s1 uid (id' T) = Inr (s2, r2)
         \<and> is_complete r2 = is_complete T
         \<and> id' r2 = id' T \<and> r2 \<in> set (tasks_tbl s2)
         \<and> map is_complete (tasks_tbl s2) = map is_complete (tasks_tbl s)"
proof -
  let ?T1 = "T\<lparr>is_complete := \<not> is_complete T\<rparr>"
  let ?s1 = "commit_update s ?T1"
  let ?T2 = "?T1\<lparr>is_complete := \<not> is_complete ?T1\<rparr>"
  let ?s2 = "commit_update ?s1 ?T2"
  have once: "toggle_completion s uid (id' T) = Inr (?s1, ?T1)"
    using assms by (rule toggle_completion_owned)
  have pk1: "tasks_pk ?s1"
    using assms(1) by (simp add: commit_update_pk)
  have mem1: "?T1 \<in> set (tasks_tbl ?s1)"
    using assms(2) by (rule commit_update_mem) simp
  have own1: "user_id ?T1 = uid"
    using assms(3) by simp
  have "toggle_completion ?s1 uid (id' ?T1) = Inr (?s2, ?T2)"
    using pk1 mem1 own1 by (rule toggle_completion_owned)
  then have twice: "toggle_completion ?s1 uid (id' T) = Inr (?s2, ?T2)"
    by simp
  have restored: "?T2 = T" by simp
  have mem2: "?T2 \<in> set (tasks_tbl ?s2)"
    using mem1 by (rule commit_update_mem) simp
  have "tasks_tbl ?s2 = tasks_tbl (commit_update s ?T2)"
    by (rule commit_update_twice) simp
  also have "\<dots> = tasks_tbl s"
    unfolding restored using assms(1,2) by (rule commit_update_same)
  finally have flags: "map is_complete (tasks_tbl ?s2) = map is_complete (tasks_tbl s)"
    by simp
  from once twice restored mem2 flags show ?thesis
    by (intro exI [of _ ?s1] exI [of _ ?T1] exI [of _ ?s2] exI [of _ ?T2]) simp
qed

text \<open>At the sample store, user 1 toggles task 7 twice; it is incomplete as before.\<close>

theorem toggle_twice_restores_flag_witness:
  "tasks_pk demo_session \<and> demo_task \<in> set (tasks_tbl demo_session) \<and> user_id demo_task = 1
   \<and> (\<exists>s1 r1 s2 r2.
           toggle_completion demo_session 1 7 = Inr (s1, r1)
         \<and> is_complete r1
         \<and> toggle_completion s1 1 7 = Inr (s2, r2)
         \<and> \<not> is_complete r2)"
proof -
  have h1: "tasks_pk demo_session" by (simp add: tasks_pk_def demo_session_def)
  have h2: "demo_task \<in> set (tasks_tbl demo_session)"
    by (simp add: demo_session_def demo_task_def)
  have h3: "user_id demo_task = 1" by (simp add: demo_task_def)
  have seven: "id' demo_task = 7" and flag: "\<not> is_complete demo_task"
    by (simp_all add: demo_task_def)
  from toggle_twice_restores_flag [OF h1 h2 h3]
  obtain s1 r1 s2 r2 where
    "toggle_completion demo_session 1 7 = Inr (s1, r1)" "is_complete r1"
    "toggle_completion s1 1 7 = Inr (s2, r2)" "\<not> is_complete r2"
    unfolding seven using flag by auto
  then show ?thesis using h1 h2 h3 by blast
qed

lemma TaskCreate_title_str:
  "TaskCreate_title (Some (JStr v)) =
     (if length v < 1 then Inl (ValidationError ''String is too short'')
      else if 200 < length v then Inl (ValidationError ''String is too long'')
      else if strip v = [] then
        Inl (ValidationError ''Value error, Title cannot be only whitespace'')
      else Inr (strip v))"
  by (simp add: TaskCreate_title_def str_field_def field_validator_def
      TaskCreate_title_not_whitespace_def)

lemma TaskUpdate_title_str:
  "TaskUpdate_title (Some (JStr v)) =
     (if length v < 1 then Inl (ValidationError ''String is too short'')
      else if 200 < length v then Inl (ValidationError ''String is too long'')
      else if strip v = [] then
        Inl (ValidationError ''Value error, Title cannot be only whitespace'')
      else Inr (Some (strip v)))"
  by (simp add: TaskUpdate_title_def optional_str_field_def str_field_def field_validator_def
      TaskUpdate_title_not_whitespace_def)

lemma strip_Nil: "strip [] = []"
  by (simp add: strip_def)

lemma TaskUpdate_description_str:
  "TaskUpdate_description (Some (JStr v)) =
     (if 1000 < length v then Inl (ValidationError ''String is too long'')
      else Inr (if strip v = [] then None else Some (strip v)))"
  by (auto simp: TaskUpdate_description_def optional_str_field_def str_field_def
      TaskUpdate_clean_description_def strip_Nil Let_def)

lemma clean_description_same: "TaskUpdate_clean_description v = TaskCreate_clean_description v"
  by (simp add: TaskUpdate_clean_description_def TaskCreate_clean_description_def)

lemma description_field_same: "TaskUpdate_description j = TaskCreate_description j"
  by (simp only: TaskUpdate_description_def TaskCreate_description_def clean_description_same)

text \<open>
  C6. For a stored task \<open>T\<close> of the caller and every validated update request,
  \<^verbatim>\<open>update_task\<close> succeeds; the task it returns has the identifier, owner, completion flag
  and creation time of \<open>T\<close>, its title is the supplied one or that of \<open>T\<close> when none was
  supplied, and likewise its description; in the table only the row \<open>T\<close> is replaced. A
  key absent from the body counts as not supplied. A title string is validated on update
  exactly as on create (length from 1 to 200 as sent, not only whitespace, stored
  trimmed), and the description is validated by the same function on both.
\<close>

theorem update_task_changes_only_supplied:
  assumes "tasks_pk s" and "T \<in> set (tasks_tbl s)" and "user_id T = uid"
  shows "(\<exists>s' r. update_task s uid (id' T) (TaskUpdate ttl descr) = Inr (s', r)
            \<and> id' r = id' T \<and> user_id r = user_id T \<and> is_complete r = is_complete T
            \<and> created_at r = created_at T
            \<and> title r = (case ttl of None \<Rightarrow> title T | Some v \<Rightarrow> v)
            \<and> description r = (case descr of None \<Rightarrow> description T | Some v \<Rightarrow> Some v)
            \<and> tasks_tbl s' = map (\<lambda>x. if x = T then r else x) (tasks_tbl s))
       \<and> TaskUpdate_title None = Inr None \<and> TaskUpdate_description None = Inr None
       \<and> TaskUpdate_title (Some (JStr v))
           = (case TaskCreate_title (Some (JStr v)) of Inl e \<Rightarrow> Inl e | Inr t \<Rightarrow> Inr (Some t))
       \<and> TaskCreate_title (Some (JStr v))
           = (if length v < 1 then Inl (ValidationError ''String is too short'')
              else if 200 < length v then Inl (ValidationError ''String is too long'')
              else if strip v = [] then
                Inl (ValidationError ''Value error, Title cannot be only whitespace'')
              else Inr (strip v))
       \<and> TaskUpdate_description j = TaskCreate_description j
       \<and> TaskUpdate_description (Some (JStr v))
           = (if 1000 < length v then Inl (ValidationError ''String is too long'')
              else Inr (if strip v = [] then None else Some (strip v)))"
proof -
  let ?r = "T\<lparr>title := (case ttl of None \<Rightarrow> title T | Some v \<Rightarrow> v),
               description := (case descr of None \<Rightarrow> description T | Some v \<Rightarrow> Some v)\<rparr>"
  have run: "update_task s uid (id' T) (TaskUpdate ttl descr) = Inr (commit_update s ?r, ?r)"
    using assms by (rule update_task_owned)
  have rows: "tasks_tbl (commit_update s ?r) = map (\<lambda>x. if x = T then ?r else x) (tasks_tbl s)"
    using assms(1,2) by (rule commit_update_rows) simp
  have service: "\<exists>s' r. update_task s uid (id' T) (TaskUpdate ttl descr) = Inr (s', r)
            \<and> id' r = id' T \<and> user_id r = user_id T \<and> is_complete r = is_complete T
            \<and> created_at r = created_at T
            \<and> title r = (case ttl of None \<Rightarrow> title T | Some v \<Rightarrow> v)
            \<and> description r = (case descr of None \<Rightarrow> description T | Some v \<Rightarrow> Some v)
            \<and> tasks_tbl s' = map (\<lambda>x. if x = T then r else x) (tasks_tbl s)"
    using run rows by (intro exI [of _ "commit_update s ?r"] exI [of _ ?r]) simp
  have absent: "TaskUpdate_title None = Inr None \<and> TaskUpdate_description None = Inr None"
    by (simp add: TaskUpdate_title_def TaskUpdate_description_def)
  have title_same: "TaskUpdate_title (Some (JStr v))
      = (case TaskCreate_title (Some (JStr v)) of Inl e \<Rightarrow> Inl e | Inr t \<Rightarrow> Inr (Some t))"
    by (simp add: TaskUpdate_title_str TaskCreate_title_str)
  from service absent title_same TaskCreate_title_str [of v] description_field_same [of j]
    TaskUpdate_description_str [of v]
  show ?thesis by (intro conjI) simp_all
qed

text \<open>
  At the sample store, user 1 sends a new title for task 7 and no description: the
  title changes, the description and the flag stay.
\<close>

theorem update_task_changes_only_supplied_witness:
  "tasks_pk demo_session \<and> demo_task \<in> set (tasks_tbl demo_session) \<and> user_id demo_task = 1
   \<and> (\<exists>s' r. update_task demo_session 1 7 (TaskUpdate (Some ''pay the rent'') None) = Inr (s', r)
         \<and> title r = ''pay the rent'' \<and> description r = Some ''by Friday''
         \<and> user_id r = 1 \<and> \<not> is_complete r \<and> created_at r = 100)"
proof -
  have h1: "tasks_pk demo_session" by (simp add: tasks_pk_def demo_session_def)
  have h2: "demo_task \<in> set (tasks_tbl demo_session)"
    by (simp add: demo_session_def demo_task_def)
  have h3: "user_id demo_task = 1" by (simp add: demo_task_def)
  have fields: "id' demo_task = 7" "\<not> is_complete demo_task" "created_at demo_task = 100"
    "description demo_task = Some ''by Friday''"
    by (simp_all add: demo_task_def)
  from update_task_changes_only_supplied
    [OF h1 h2 h3, of "Some ''pay the rent''" None "''x''" "Some JNull", THEN conjunct1]
  obtain s' r where
    "update_task demo_session 1 7 (TaskUpdate (Some ''pay the rent'') None) = Inr (s', r)"
    "title r = ''pay the rent''" "description r = Some ''by Friday''"
    "user_id r = 1" "\<not> is_complete r" "created_at r = 100"
    using fields h3 by auto
  then show ?thesis using h1 h2 h3 by blast
qed

text \<open>
  C9. Let the stored task \<open>T\<close> of the caller have a description, and let the body of an
  update request carry as description a string \<open>v\<close> that is empty or only whitespace.
  Then after the request every stored description is what it was. If \<open>v\<close> has at most
  1000 characters, the validator turns it into \<^verbatim>\<open>None\<close>; a longer one is rejected. If
  the request succeeds, the returned task has the description of \<open>T\<close>. And no validated
  update request at all makes \<^verbatim>\<open>update_task\<close> return \<open>T\<close> without a description.
\<close>

theorem blank_description_keeps_stored:
  assumes "tasks_pk s" and "T \<in> set (tasks_tbl s)" and "user_id T = uid"
    and "description T = Some d"
    and "body ''description'' = Some (JStr v)" and "strip v = []"
  shows "map description (tasks_tbl (session_after s (api_update_task s uid (id' T) body)))
           = map description (tasks_tbl s)
       \<and> TaskUpdate_description (body ''description'')
           = (if 1000 < length v then Inl (ValidationError ''String is too long'') else Inr None)
       \<and> (\<forall>s' r. api_update_task s uid (id' T) body = Inr (s', r) \<longrightarrow> description r = Some d)
       \<and> (\<forall>s' r. update_task s uid (id' T) task_data = Inr (s', r) \<longrightarrow> description r \<noteq> None)"
proof -
  have blank: "TaskUpdate_description (body ''description'')
      = (if 1000 < length v then Inl (ValidationError ''String is too long'') else Inr None)"
    using assms(5,6) by (simp add: TaskUpdate_description_str)
  have route: "api_update_task s uid (id' T) body = Inr (s', r) \<Longrightarrow>
      description r = Some d \<and> map description (tasks_tbl s') = map description (tasks_tbl s)"
    for s' r
  proof -
    assume ok: "api_update_task s uid (id' T) body = Inr (s', r)"
    then obtain ttl descr where valid: "TaskUpdate_validate body = Inr (TaskUpdate ttl descr)"
      and upd: "update_task s uid (id' T) (TaskUpdate ttl descr) = Inr (s', r)"
      by (auto simp: api_update_task_def split: sum.splits) (metis TaskUpdate.exhaust)
    from valid blank have "descr = None"
      by (auto simp: TaskUpdate_validate_def split: sum.splits if_splits)
    with upd update_task_owned [OF assms(1,2,3), of ttl descr]
    have r: "r = T\<lparr>title := (case ttl of None \<Rightarrow> title T | Some v \<Rightarrow> v)\<rparr>"
      and s': "s' = commit_update s r"
      by simp_all
    have "tasks_tbl s' = map (\<lambda>x. if x = T then r else x) (tasks_tbl s)"
      unfolding s' using assms(1,2) by (rule commit_update_rows) (simp add: r)
    then have "map description (tasks_tbl s') = map description (tasks_tbl s)"
      by (simp add: r comp_def cong: map_cong)
    with r assms(4) show ?thesis by simp
  qed
  have stored: "map description (tasks_tbl (session_after s (api_update_task s uid (id' T) body)))
           = map description (tasks_tbl s)"
  proof (cases "api_update_task s uid (id' T) body")
    case (Inl e)
    then show ?thesis by (simp add: session_after_def)
  next
    case (Inr p)
    then obtain s' r where "api_update_task s uid (id' T) body = Inr (s', r)"
      by (cases p) simp
    with route [of s' r] show ?thesis by (simp add: session_after_def)
  qed
  have never: "\<forall>s' r. update_task s uid (id' T) task_data = Inr (s', r) \<longrightarrow> description r \<noteq> None"
  proof (cases task_data)
    case (TaskUpdate ttl descr)
    with update_task_owned [OF assms(1,2,3), of ttl descr] assms(4)
    show ?thesis by (cases descr) auto
  qed
  from stored blank route never show ?thesis by blast
qed

text \<open>
  At the sample store, user 1 sends three spaces as the description of task 7, which
  has the description \<^verbatim>\<open>by Friday\<close>: the request succeeds and the description stays.
\<close>

theorem blank_description_keeps_stored_witness:
  "tasks_pk demo_session \<and> demo_task \<in> set (tasks_tbl demo_session) \<and> user_id demo_task = 1
   \<and> description demo_task = Some ''by Friday''
   \<and> [''description'' \<mapsto> JStr ''   ''] ''description'' = Some (JStr ''   '')
   \<and> strip ''   '' = []
   \<and> api_update_task demo_session 1 7 [''description'' \<mapsto> JStr ''   '']
       = Inr (demo_session, demo_task)
   \<and> map description
        (tasks_tbl (session_after demo_session
           (api_update_task demo_session 1 7 [''description'' \<mapsto> JStr ''   ''])))
       = [Some ''by Friday'', None]"
proof -
  have h1: "tasks_pk demo_session" by (simp add: tasks_pk_def demo_session_def)
  have h2: "demo_task \<in> set (tasks_tbl demo_session)"
    by (simp add: demo_session_def demo_task_def)
  have h3: "user_id demo_task = 1" by (simp add: demo_task_def)
  have h4: "description demo_task = Some ''by Friday''" by (simp add: demo_task_def)
  have h5: "[''description'' \<mapsto> JStr ''   ''] ''description'' = Some (JStr ''   '')" by simp
  have h6: "strip ''   '' = []" by (simp add: strip_def isspace_def)
  have seven: "id' demo_task = 7" by (simp add: demo_task_def)
  have valid: "TaskUpdate_validate [''description'' \<mapsto> JStr ''   ''] = Inr (TaskUpdate None None)"
    by (simp add: TaskUpdate_validate_def TaskUpdate_title_def TaskUpdate_description_str h6)
  have run: "api_update_task demo_session 1 7 [''description'' \<mapsto> JStr ''   '']
       = Inr (demo_session, demo_task)"
    using update_task_owned [OF h1 h2 h3, of None None] commit_update_same [OF h1 h2]
    by (simp add: api_update_task_def valid seven commit_update_def)
  have before: "map description (tasks_tbl demo_session) = [Some ''by Friday'', None]"
    by (simp add: demo_session_def)
  from blank_description_keeps_stored
    [where body = "[''description'' \<mapsto> JStr ''   '']" and v = "''   ''",
      OF h1 h2 h3 h4 h5 h6] before
  have "map description
        (tasks_tbl (session_after demo_session
           (api_update_task demo_session 1 7 [''description'' \<mapsto> JStr ''   ''])))
       = [Some ''by Friday'', None]"
    by (simp add: seven)
  with h1 h2 h3 h4 h5 h6 run show ?thesis by simp
qed

section \<open>Claims about tokens\<close>

lemma jwt_decode_error: "jwt_decode mac now token key algorithms = Inl e \<Longrightarrow> \<exists>msg. e = JWTError msg"
  by (auto simp: jwt_decode_def validate_exp_def validate_sub_def
      split: token.splits if_splits sum.splits option.splits json.splits)

lemma jwt_decode_expired:
  "token_exp token = Some exp \<Longrightarrow> exp < now \<Longrightarrow>
   \<exists>msg. jwt_decode mac now token key algorithms = Inl (JWTError msg)"
  by (auto simp: jwt_decode_def token_exp_def validate_exp_def
      split: token.splits option.splits json.splits)

lemma verify_token_JWTError:
  "jwt_decode mac now token secret [ALGORITHM] = Inl (JWTError msg) \<Longrightarrow>
   verify_token mac secret now token
     = Inl (HTTPException HTTP_401_UNAUTHORIZED (''Invalid or expired token: '' @ msg))"
  by (simp add: verify_token_def)

lemma sub_to_int_error:
  "sub_to_int j = Inl e \<Longrightarrow> (\<exists>msg. e = ValueError msg) \<or> (\<exists>d. e = HTTPException 401 d)"
  by (cases j) (auto simp: sub_to_int_def py_int_def Let_def split: option.splits prod.splits)

lemma verify_token_failure_status:
  assumes "verify_token mac secret now token = Inl e"
  shows "\<exists>d. e = HTTPException HTTP_401_UNAUTHORIZED d"
proof (cases "jwt_decode mac now token secret [ALGORITHM]")
  case (Inl x)
  then obtain msg where "x = JWTError msg" using jwt_decode_error by blast
  with Inl assms show ?thesis by (auto simp: verify_token_def)
next
  case (Inr payload)
  show ?thesis
  proof (cases "payload ''sub''")
    case None
    with Inr assms show ?thesis by (auto simp: verify_token_def)
  next
    case (Some j)
    show ?thesis
    proof (cases "sub_to_int j")
      case (Inl x)
      with sub_to_int_error [of j x] Inr Some assms show ?thesis
        by (auto simp: verify_token_def)
    next
      case (Inr uid)
      with \<open>jwt_decode mac now token secret [ALGORITHM] = Inr payload\<close> Some assms
      show ?thesis by (simp add: verify_token_def)
    qed
  qed
qed

text \<open>
  C3. A token issued for the identifier \<open>x\<close> and verified under the same secret, with
  the same authentication code, no later than its expiry (24 hours after the clock reading
  \<open>now_exp\<close> of the issue) verifies to \<open>x\<close>. This holds for every integer \<open>x\<close>:
  the subject is \<^verbatim>\<open>str(x)\<close>, and \<^verbatim>\<open>int\<close> reads it back.
\<close>

theorem verify_issued_token:
  assumes "now \<le> now_exp + 24 * 3600"
  shows "verify_token mac secret now (create_access_token mac secret now_exp now_iat x) = Inr x"
proof -
  let ?claims = "[''sub'' \<mapsto> JStr (py_str x), ''exp'' \<mapsto> JNum (now_exp + 24 * 3600),
                  ''iat'' \<mapsto> JNum now_iat]"
  have token: "create_access_token mac secret now_exp now_iat x
      = Compact ALGORITHM ?claims (mac secret ALGORITHM ?claims)"
    by (simp add: create_access_token_def jwt_encode_def ACCESS_TOKEN_EXPIRE_HOURS_def Let_def)
  have exp: "validate_exp ?claims now = Inr ()"
    using assms by (simp add: validate_exp_def)
  have sub: "validate_sub ?claims = Inr ()"
    by (simp add: validate_sub_def)
  have decode: "jwt_decode mac now (Compact ALGORITHM ?claims (mac secret ALGORITHM ?claims))
      secret [ALGORITHM] = Inr ?claims"
    using exp sub by (simp add: jwt_decode_def)
  have "?claims ''sub'' = Some (JStr (py_str x))" by simp
  with decode show ?thesis
    unfolding token
    by (simp add: verify_token_def sub_to_int_def py_int_py_str del: fun_upd_apply)
qed

text \<open>
  A token issued for user 42 at time 1000 is verified one hour later, with the toy
  authentication code and the default secret.
\<close>

theorem verify_issued_token_witness:
  "(4600::int) \<le> 1000 + 24 * 3600
   \<and> verify_token demo_mac ''default-secret-change-this'' 4600
        (create_access_token demo_mac ''default-secret-change-this'' 1000 1000 42) = Inr 42
   \<and> create_access_token demo_mac ''default-secret-change-this'' 1000 1000 42
       = Compact ''HS256''
           [''sub'' \<mapsto> JStr ''42'', ''exp'' \<mapsto> JNum 87400, ''iat'' \<mapsto> JNum 1000]
           (''default-secret-change-this'', ''HS256'',
            Some (JStr ''42''), Some (JNum 87400), Some (JNum 1000))"
proof -
  have h: "(4600::int) \<le> 1000 + 24 * 3600" by simp
  have str: "py_str 42 = ''42''"
    by (simp add: py_str_def str_nat.simps str_digit_def)
  have token: "create_access_token demo_mac ''default-secret-change-this'' 1000 1000 42
       = Compact ''HS256''
           [''sub'' \<mapsto> JStr ''42'', ''exp'' \<mapsto> JNum 87400, ''iat'' \<mapsto> JNum 1000]
           (''default-secret-change-this'', ''HS256'',
            Some (JStr ''42''), Some (JNum 87400), Some (JNum 1000))"
    by (simp add: create_access_token_def jwt_encode_def ACCESS_TOKEN_EXPIRE_HOURS_def
        ALGORITHM_def demo_mac_def str Let_def)
  from verify_issued_token [OF h, of demo_mac "''default-secret-change-this''" 1000 42] h token
  show ?thesis by simp
qed

text \<open>
  C4. A token that carries an expiry \<open>exp\<close> before the time \<open>now\<close> of the check does
  not verify: \<^verbatim>\<open>verify_token\<close> raises the HTTP exception with status 401, whatever the
  signature of the token is, and so returns no identifier.
\<close>

theorem expired_token_is_unauthorized:
  assumes "token_exp token = Some exp" and "exp < now"
  shows "\<exists>msg. verify_token mac secret now token
           = Inl (HTTPException HTTP_401_UNAUTHORIZED (''Invalid or expired token: '' @ msg))"
proof -
  from assms obtain msg where "jwt_decode mac now token secret [ALGORITHM] = Inl (JWTError msg)"
    using jwt_decode_expired by blast
  then have "verify_token mac secret now token
      = Inl (HTTPException HTTP_401_UNAUTHORIZED (''Invalid or expired token: '' @ msg))"
    by (rule verify_token_JWTError)
  then show ?thesis ..
qed

text \<open>
  The correctly signed token of user 42 from above, which expires at 87400, is verified
  at 87401.
\<close>

theorem expired_token_is_unauthorized_witness:
  "token_exp (create_access_token demo_mac ''default-secret-change-this'' 1000 1000 42)
     = Some 87400
   \<and> (87400::int) < 87401
   \<and> verify_token demo_mac ''default-secret-change-this'' 87400
        (create_access_token demo_mac ''default-secret-change-this'' 1000 1000 42) = Inr 42
   \<and> verify_token demo_mac ''default-secret-change-this'' 87401
        (create_access_token demo_mac ''default-secret-change-this'' 1000 1000 42)
       = Inl (HTTPException HTTP_401_UNAUTHORIZED
               ''Invalid or expired token: Signature has expired.'')"
proof -
  let ?token = "create_access_token demo_mac ''default-secret-change-this'' 1000 1000 42"
  have str: "py_str 42 = ''42''"
    by (simp add: py_str_def str_nat.simps str_digit_def)
  have token: "?token
       = Compact ''HS256''
           [''sub'' \<mapsto> JStr ''42'', ''exp'' \<mapsto> JNum 87400, ''iat'' \<mapsto> JNum 1000]
           (''default-secret-change-this'', ''HS256'',
            Some (JStr ''42''), Some (JNum 87400), Some (JNum 1000))"
    by (simp add: create_access_token_def jwt_encode_def ACCESS_TOKEN_EXPIRE_HOURS_def
        ALGORITHM_def demo_mac_def str Let_def)
  have h1: "token_exp ?token = Some 87400"
    by (simp add: token token_exp_def)
  have h2: "(87400::int) < 87401" by simp
  have int: "py_int ''42'' = Inr 42"
    by (simp add: py_int_def strip_def isspace_def int_literal_def int_digit_def)
  have valid: "verify_token demo_mac ''default-secret-change-this'' 87400 ?token = Inr 42"
    by (simp add: token verify_token_def jwt_decode_def validate_exp_def validate_sub_def
        ALGORITHM_def demo_mac_def sub_to_int_def int)
  have late: "jwt_decode demo_mac 87401 ?token ''default-secret-change-this'' [ALGORITHM]
      = Inl (JWTError ''Signature has expired.'')"
    by (simp add: token jwt_decode_def validate_exp_def ALGORITHM_def demo_mac_def)
  from expired_token_is_unauthorized [OF h1 h2, of demo_mac "''default-secret-change-this''"]
  obtain msg where "verify_token demo_mac ''default-secret-change-this'' 87401 ?token
      = Inl (HTTPException HTTP_401_UNAUTHORIZED (''Invalid or expired token: '' @ msg))"
    by blast
  moreover have "verify_token demo_mac ''default-secret-change-this'' 87401 ?token
      = Inl (HTTPException HTTP_401_UNAUTHORIZED
              (''Invalid or expired token: '' @ ''Signature has expired.''))"
    using late by (rule verify_token_JWTError)
  ultimately show ?thesis using h1 h2 valid by simp
qed

section \<open>Claims about login\<close>

lemma scalar_one_or_none_Some: "scalar_one_or_none rows = Inr (Some x) \<longleftrightarrow> rows = [x]"
  by (cases rows rule: scalar_one_or_none.cases) auto

lemma scalar_one_or_none_error: "scalar_one_or_none rows = Inl e \<Longrightarrow> e = MultipleResultsFound"
  by (cases rows rule: scalar_one_or_none.cases) auto

text \<open>
  C10. When the account found for the email is inactive and the password does not match
  its hash, \<^verbatim>\<open>login_user\<close> raises the HTTP exception with status 401 for bad credentials,
  not 403. Whenever \<^verbatim>\<open>login_user\<close> raises status 403, on any store and for any
  credentials, exactly one account has the email, it is inactive, and the password
  matches its hash.
\<close>

theorem inactive_wrong_password_is_unauthorized:
  assumes "scalar_one_or_none (filter (\<lambda>u. email u = login_email) (users_tbl s)) = Inr (Some user)"
    and "\<not> is_active user"
    and "\<not> verify_password login_password (password_hash user)"
  shows "login_user mac secret verify_password now_exp now_iat s
           (UserLoginRequest login_email login_password)
           = Inl (HTTPException HTTP_401_UNAUTHORIZED ''Incorrect email or password'')
       \<and> (\<forall>d s' e p.
            login_user mac secret verify_password now_exp now_iat s' (UserLoginRequest e p)
              = Inl (HTTPException HTTP_403_FORBIDDEN d)
            \<longrightarrow> (\<exists>u. filter (\<lambda>u. email u = e) (users_tbl s') = [u] \<and> \<not> is_active u
                      \<and> verify_password p (password_hash u)))"
proof -
  have first: "login_user mac secret verify_password now_exp now_iat s
           (UserLoginRequest login_email login_password)
           = Inl (HTTPException HTTP_401_UNAUTHORIZED ''Incorrect email or password'')"
    using assms(1,3) by (simp add: login_user_def)
  have forbidden: "\<exists>u. filter (\<lambda>u. email u = e) (users_tbl s') = [u] \<and> \<not> is_active u
                      \<and> verify_password p (password_hash u)"
    if raised: "login_user mac secret verify_password now_exp now_iat s' (UserLoginRequest e p)
              = Inl (HTTPException HTTP_403_FORBIDDEN d)" for d s' e p
  proof (cases "scalar_one_or_none (filter (\<lambda>u. email u = e) (users_tbl s'))")
    case (Inl x)
    then have "x = MultipleResultsFound" by (rule scalar_one_or_none_error)
    with Inl raised show ?thesis by (simp add: login_user_def)
  next
    case (Inr found)
    show ?thesis
    proof (cases found)
      case None
      with Inr raised show ?thesis by (simp add: login_user_def)
    next
      case (Some u)
      with Inr have one: "filter (\<lambda>u. email u = e) (users_tbl s') = [u]"
        by (simp add: scalar_one_or_none_Some)
      from Inr Some raised have "verify_password p (password_hash u) \<and> \<not> is_active u"
        by (auto simp: login_user_def split: if_splits)
      with one show ?thesis by auto
    qed
  qed
  from first forbidden show ?thesis by blast
qed

text \<open>
  At the sample store the account of \<^verbatim>\<open>b@x.com\<close> is inactive: a wrong password gives
  401, the right one gives 403.
\<close>

theorem inactive_wrong_password_is_unauthorized_witness:
  "scalar_one_or_none (filter (\<lambda>u. email u = ''b@x.com'') (users_tbl demo_session))
     = Inr (Some demo_user)
   \<and> \<not> is_active demo_user
   \<and> \<not> demo_verify_password ''guess'' (password_hash demo_user)
   \<and> login_user demo_mac ''default-secret-change-this'' demo_verify_password 1000 1000
        demo_session (UserLoginRequest ''b@x.com'' ''guess'')
       = Inl (HTTPException HTTP_401_UNAUTHORIZED ''Incorrect email or password'')
   \<and> login_user demo_mac ''default-secret-change-this'' demo_verify_password 1000 1000
        demo_session (UserLoginRequest ''b@x.com'' ''secret-of-b'')
       = Inl (HTTPException HTTP_403_FORBIDDEN ''Account is inactive'')"
proof -
  have h1: "scalar_one_or_none (filter (\<lambda>u. email u = ''b@x.com'') (users_tbl demo_session))
     = Inr (Some demo_user)"
    by (simp add: demo_session_def demo_user_def)
  have h2: "\<not> is_active demo_user" by (simp add: demo_user_def)
  have h3: "\<not> demo_verify_password ''guess'' (password_hash demo_user)"
    by (simp add: demo_verify_password_def demo_user_def)
  have right: "demo_verify_password ''secret-of-b'' (password_hash demo_user)"
    by (simp add: demo_verify_password_def demo_user_def)
  have forbidden: "login_user demo_mac ''default-secret-change-this'' demo_verify_password
        1000 1000 demo_session (UserLoginRequest ''b@x.com'' ''secret-of-b'')
       = Inl (HTTPException HTTP_403_FORBIDDEN ''Account is inactive'')"
    using h1 h2 right by (simp add: login_user_def)
  from inactive_wrong_password_is_unauthorized
    [of "''b@x.com''" demo_session demo_user demo_verify_password "''guess''",
      OF h1 h2 h3, of demo_mac "''default-secret-change-this''" 1000 1000, THEN conjunct1]
  show ?thesis using h1 h2 h3 forbidden by simp
qed

end
